theory Spec2Isabelle
  imports Complex_Main
begin

section \<open>JavaScript values\<close>

text \<open>
  The handler and the RPC client work on untyped values: rows read from the store, the
  result of \<^verbatim>\<open>JSON.parse\<close>, the fields of the resolved result. One datatype covers
  them. Numbers are modelled as reals: the code only compares them with zero (truthiness),
  tests \<^verbatim>\<open>typeof\<close> and passes them through; \<^verbatim>\<open>JSON.parse\<close> never yields NaN.
  An object is the list of its own properties, keys distinct, as \<^verbatim>\<open>JSON.parse\<close> leaves it.
\<close>

datatype jsval =
    JUndef
  | JNull
  | JBool bool
  | JNum real
  | JStr string
  | JArr "jsval list"
  | JObj "(string \<times> jsval) list"

text \<open>Truthiness, as \<^verbatim>\<open>if (v)\<close>, \<^verbatim>\<open>!v\<close> and \<^verbatim>\<open>v || d\<close> test it.\<close>

fun truthy :: "jsval \<Rightarrow> bool" where
  "truthy JUndef = False"
| "truthy JNull = False"
| "truthy (JBool b) = b"
| "truthy (JNum x) = (x \<noteq> 0)"
| "truthy (JStr s) = (s \<noteq> [])"
| "truthy (JArr xs) = True"
| "truthy (JObj kvs) = True"

text \<open>\<^verbatim>\<open>a || d\<close>\<close>

definition js_or :: "jsval \<Rightarrow> jsval \<Rightarrow> jsval" where
  "js_or a d = (if truthy a then a else d)"

text \<open>\<^verbatim>\<open>v === undefined || v === null\<close>: reading a property of such a value throws a TypeError.\<close>

fun nullish :: "jsval \<Rightarrow> bool" where
  "nullish JUndef = True"
| "nullish JNull = True"
| "nullish v = False"

text \<open>
  \<^verbatim>\<open>v.k\<close> for a value that is not nullish and a property name that no built-in prototype
  defines (the code reads \<^verbatim>\<open>id\<close>, \<^verbatim>\<open>ok\<close>, \<^verbatim>\<open>assignments\<close>, \<^verbatim>\<open>categories\<close>, \<^verbatim>\<open>coverage\<close>,
  \<^verbatim>\<open>error\<close>, \<^verbatim>\<open>upload_id\<close>): the own property of an object, \<^verbatim>\<open>undefined\<close> otherwise.
\<close>

fun get_prop :: "jsval \<Rightarrow> string \<Rightarrow> jsval" where
  "get_prop (JObj kvs) k = (case map_of kvs k of None \<Rightarrow> JUndef | Some v \<Rightarrow> v)"
| "get_prop v k = JUndef"

text \<open>\<^verbatim>\<open>Array.isArray(v)\<close> and \<^verbatim>\<open>typeof v === "number"\<close>\<close>

fun isArray :: "jsval \<Rightarrow> bool" where
  "isArray (JArr xs) = True"
| "isArray v = False"

fun is_number :: "jsval \<Rightarrow> bool" where
  "is_number (JNum x) = True"
| "is_number v = False"

text \<open>
  The property key that \<^verbatim>\<open>obj[k]\<close> looks up for an index \<open>k\<close>: its decimal numeral,
  most significant digit first.
\<close>

definition digit_char :: "nat \<Rightarrow> char" where
  "digit_char d = char_of (d + 48)"

fun index_key :: "nat \<Rightarrow> string" where
  "index_key k =
     (if 10 \<le> k then index_key (k div 10) @ [digit_char (k mod 10)] else [digit_char k])"

text \<open>
  \<^verbatim>\<open>a?.[k]\<close>: \<^verbatim>\<open>undefined\<close> for a nullish \<open>a\<close>, the element of an array (\<^verbatim>\<open>undefined\<close> out
  of range), the character of a string (a string of ASCII text, where the characters
  of the model and the code units of JavaScript agree), the property of an object.
\<close>

fun opt_index :: "jsval \<Rightarrow> nat \<Rightarrow> jsval" where
  "opt_index JUndef k = JUndef"
| "opt_index JNull k = JUndef"
| "opt_index (JArr xs) k = (if k < length xs then xs ! k else JUndef)"
| "opt_index (JStr s) k = (if k < length s then JStr [s ! k] else JUndef)"
| "opt_index (JObj kvs) k = get_prop (JObj kvs) (index_key k)"
| "opt_index (JBool b) k = JUndef"
| "opt_index (JNum x) k = JUndef"

text \<open>
  \<^verbatim>\<open>String(v)\<close>, which \<^verbatim>\<open>new Error(v)\<close> applies to its argument. It throws a TypeError for
  an object with an own \<^verbatim>\<open>toString\<close> property: \<^verbatim>\<open>JSON.parse\<close> never makes it a function, so
  the conversion goes on to \<^verbatim>\<open>valueOf\<close>, which is no function either or is the inherited
  one that returns the object itself. An array is printed by \<^verbatim>\<open>join\<close>, which prints
  \<^verbatim>\<open>null\<close> and \<^verbatim>\<open>undefined\<close> as the empty string and every other element by the same
  conversion, so it throws when one of its elements does.
\<close>

fun String_throws :: "jsval \<Rightarrow> bool" where
  "String_throws (JObj kvs) = (map_of kvs ''toString'' \<noteq> None)"
| "String_throws (JArr xs) = list_ex String_throws xs"
| "String_throws v = False"

text \<open>
  The string \<^verbatim>\<open>String(v)\<close> returns, \<open>None\<close> when it throws. The printing of a number is the
  host's and is taken as the parameter \<open>fmt\<close>.
\<close>

fun join_comma :: "string list \<Rightarrow> string" where
  "join_comma [] = []"
| "join_comma [s] = s"
| "join_comma (s # t # ss) = s @ '','' @ join_comma (t # ss)"

fun js_String :: "(real \<Rightarrow> string) \<Rightarrow> jsval \<Rightarrow> string option" where
  "js_String fmt JUndef = Some ''undefined''"
| "js_String fmt JNull = Some ''null''"
| "js_String fmt (JBool b) = Some (if b then ''true'' else ''false'')"
| "js_String fmt (JNum x) = Some (fmt x)"
| "js_String fmt (JStr s) = Some s"
| "js_String fmt (JArr xs) =
     map_option join_comma
       (those (map (\<lambda>v. if nullish v then Some [] else js_String fmt v) xs))"
| "js_String fmt (JObj kvs) =
     (if map_of kvs ''toString'' = None then Some ''[object Object]'' else None)"

section \<open>Configuration\<close>

definition WS_TIMEOUT_MS :: nat where
  "WS_TIMEOUT_MS = 30000"

definition MAX_ITEMS :: nat where
  "MAX_ITEMS = 500"

section \<open>Batch shaping and row construction\<close>

text \<open>A row of \<^verbatim>\<open>urls_filtered\<close>, as selected: \<^verbatim>\<open>id, raw_text, url, matched_keywords\<close>.\<close>

record candidate =
  r_id :: jsval
  raw_text :: jsval
  url :: jsval
  matched_keywords :: jsval

text \<open>The wire item \<^verbatim>\<open>{i, text, url, keywords}\<close>.\<close>

record wire_item =
  item_i :: nat
  item_text :: jsval
  item_url :: jsval
  item_keywords :: jsval

text \<open>The persistence row \<^verbatim>\<open>{filtered_id, category, confidence}\<close>.\<close>

record row =
  filtered_id :: jsval
  category :: jsval
  confidence :: real

text \<open>
  \<^verbatim>\<open>list.slice(0, MAX_ITEMS).map((r, i) => ({i, text: r.raw_text, url: r.url,
  keywords: r.matched_keywords}))\<close>, with the cap as a parameter; the handler passes
  \<open>MAX_ITEMS\<close>.
\<close>

definition shape_items :: "nat \<Rightarrow> candidate list \<Rightarrow> wire_item list" where
  "shape_items cap list =
     map (\<lambda>(k, r). \<lparr>item_i = k, item_text = raw_text r, item_url = url r,
                    item_keywords = matched_keywords r\<rparr>)
         (enumerate 0 (take cap list))"

text \<open>
  \<^verbatim>\<open>list.map((r, i) => ({filtered_id: r.id, category: assignments?.[i] || "Other",
  confidence: 0.9}))\<close>: the map runs over the whole fetched list, not over the capped one.
\<close>

definition rows :: "candidate list \<Rightarrow> jsval \<Rightarrow> row list" where
  "rows list assignments =
     map (\<lambda>(k, r). \<lparr>filtered_id = r_id r,
                    category = js_or (opt_index assignments k) (JStr ''Other''),
                    confidence = 0.9\<rparr>)
         (enumerate 0 list)"

section \<open>The correlated RPC client: \<^verbatim>\<open>callMCP\<close>\<close>

text \<open>
  What the promise can be rejected with. \<open>McpToolError v\<close> is the error \<^verbatim>\<open>new Error(v)\<close>
  built from a value \<open>v\<close> that \<^verbatim>\<open>String\<close> can print.
\<close>

datatype failure =
    McpTimeout
  | McpClosed
  | WsFailure string
  | McpToolError jsval

text \<open>The value the promise resolves with: \<^verbatim>\<open>{assignments, categories, coverage}\<close>.\<close>

record mcp_result =
  assignments :: jsval
  categories :: jsval
  coverage :: jsval

datatype outcome = Resolved mcp_result | Rejected failure

text \<open>The envelope \<^verbatim>\<open>{id, tool, items}\<close> sent on the connection.\<close>

record envelope =
  env_id :: string
  env_tool :: string
  env_items :: "wire_item list"

text \<open>
  What the call does to the connection, the timer and the promise, in the order it does
  it: \<^verbatim>\<open>ws.send\<close>, \<^verbatim>\<open>clearTimeout\<close>, \<^verbatim>\<open>resolve\<close>, \<^verbatim>\<open>reject\<close>, \<^verbatim>\<open>ws.close\<close>.
\<close>

datatype action =
    ASend envelope
  | AClearTimeout
  | AResolve mcp_result
  | AReject failure
  | AClose

text \<open>
  The closure of one call: the variables \<^verbatim>\<open>id\<close>, \<^verbatim>\<open>tool\<close>, \<^verbatim>\<open>items\<close>, \<^verbatim>\<open>settled\<close>, the timer
  (the absolute time in ms at which it is due while it is pending, \<open>None\<close> once it was
  cleared or has run), the state of the promise (\<open>None\<close> while pending) and the log of
  actions.
\<close>

record call_state =
  req_id :: string
  req_tool :: string
  req_items :: "wire_item list"
  settled :: bool
  timer :: "nat option"
  promise :: "outcome option"
  actions :: "action list"

text \<open>
  What the runtime delivers to the call: the four events of the connection and the timer
  coming due. A message carries the result of \<^verbatim>\<open>JSON.parse(String(buf))\<close>, \<open>None\<close> when
  that throws; an error carries the message of the error object.
\<close>

datatype event =
    WsOpen
  | WsMessage "jsval option"
  | WsError string
  | WsClosed
  | TimerDue

text \<open>A promise keeps its first settlement: later \<^verbatim>\<open>resolve\<close> and \<^verbatim>\<open>reject\<close> calls do nothing to it.\<close>

definition settle :: "outcome \<Rightarrow> outcome option \<Rightarrow> outcome option" where
  "settle out p = (case p of None \<Rightarrow> Some out | Some first \<Rightarrow> Some first)"

definition resolve :: "mcp_result \<Rightarrow> call_state \<Rightarrow> call_state" where
  "resolve r s = s\<lparr>promise := settle (Resolved r) (promise s), actions := actions s @ [AResolve r]\<rparr>"

definition reject :: "failure \<Rightarrow> call_state \<Rightarrow> call_state" where
  "reject e s = s\<lparr>promise := settle (Rejected e) (promise s), actions := actions s @ [AReject e]\<rparr>"

definition clearTimeout :: "call_state \<Rightarrow> call_state" where
  "clearTimeout s = s\<lparr>timer := None, actions := actions s @ [AClearTimeout]\<rparr>"

text \<open>\<^verbatim>\<open>ws.close()\<close>; the attempt is logged, whether or not it throws.\<close>

definition ws_close :: "call_state \<Rightarrow> call_state" where
  "ws_close s = s\<lparr>actions := actions s @ [AClose]\<rparr>"

text \<open>
  The executor up to the registration of the handlers: a fresh id, \<^verbatim>\<open>new WebSocket(wsUrl)\<close>,
  \<^verbatim>\<open>settled = false\<close> and \<^verbatim>\<open>setTimeout(..., WS_TIMEOUT_MS)\<close> at the time \<open>now\<close> of the call.
\<close>

definition callMCP_start :: "nat \<Rightarrow> string \<Rightarrow> string \<Rightarrow> wire_item list \<Rightarrow> call_state" where
  "callMCP_start now rid tool items =
     \<lparr>req_id = rid, req_tool = tool, req_items = items, settled = False,
      timer = Some (now + WS_TIMEOUT_MS), promise = None, actions = []\<rparr>"

text \<open>The callback of the timer.\<close>

definition on_timer :: "call_state \<Rightarrow> call_state" where
  "on_timer s =
     (if settled s then s
      else reject McpTimeout (ws_close (s\<lparr>settled := True\<rparr>)))"

text \<open>\<^verbatim>\<open>ws.on("open", ...)\<close>\<close>

definition on_open :: "call_state \<Rightarrow> call_state" where
  "on_open s =
     s\<lparr>actions := actions s @
          [ASend \<lparr>env_id = req_id s, env_tool = req_tool s, env_items = req_items s\<rparr>]\<rparr>"

text \<open>
  \<^verbatim>\<open>ws.on("message", ...)\<close>. A frame that does not parse, and a parsed \<^verbatim>\<open>null\<close> (reading
  \<^verbatim>\<open>msg.id\<close> throws), end in the empty \<^verbatim>\<open>catch\<close>; \<^verbatim>\<open>msg.id !== id\<close> returns. The handler never
  reads \<^verbatim>\<open>settled\<close>. On the branch of a falsy \<^verbatim>\<open>ok\<close>, \<^verbatim>\<open>new Error(msg.error || "mcp_tool_error")\<close>
  runs inside the \<^verbatim>\<open>try\<close>, after \<^verbatim>\<open>clearTimeout(timer)\<close> and \<^verbatim>\<open>settled = true\<close>: when the
  conversion of its argument to a string throws, the \<^verbatim>\<open>catch\<close> swallows that too, and
  neither \<^verbatim>\<open>reject\<close> nor \<^verbatim>\<open>ws.close()\<close> is reached.
\<close>

definition on_message :: "call_state \<Rightarrow> jsval option \<Rightarrow> call_state" where
  "on_message s parsed =
     (case parsed of
        None \<Rightarrow> s
      | Some msg \<Rightarrow>
          if nullish msg then s
          else if get_prop msg ''id'' \<noteq> JStr (req_id s) then s
          else
            let s1 = clearTimeout s;
                s2 = s1\<lparr>settled := True\<rparr>
            in
            if truthy (get_prop msg ''ok'') then
              ws_close
                (resolve
                   \<lparr>assignments = (if isArray (get_prop msg ''assignments'')
                                   then get_prop msg ''assignments'' else JArr []),
                    categories = (if isArray (get_prop msg ''categories'')
                                  then get_prop msg ''categories'' else JArr []),
                    coverage = (if is_number (get_prop msg ''coverage'')
                                then get_prop msg ''coverage'' else JNum 1)\<rparr>
                   s2)
            else
              let v = js_or (get_prop msg ''error'') (JStr ''mcp_tool_error'') in
              if String_throws v then s2
              else ws_close (reject (McpToolError v) s2))"

text \<open>\<^verbatim>\<open>ws.on("error", ...)\<close>\<close>

definition on_error :: "call_state \<Rightarrow> string \<Rightarrow> call_state" where
  "on_error s err =
     (if settled s then s
      else reject (WsFailure err) ((clearTimeout s)\<lparr>settled := True\<rparr>))"

text \<open>\<^verbatim>\<open>ws.on("close", ...)\<close>\<close>

definition on_close :: "call_state \<Rightarrow> call_state" where
  "on_close s =
     (if \<not> settled s then reject McpClosed ((clearTimeout s)\<lparr>settled := True\<rparr>)
      else s)"

text \<open>
  The runtime: an event at time \<open>t\<close> runs its handler. A timer runs its callback once,
  not before it is due and not after \<^verbatim>\<open>clearTimeout\<close>.
\<close>

fun dispatch :: "nat \<times> event \<Rightarrow> call_state \<Rightarrow> call_state" where
  "dispatch (t, WsOpen) s = on_open s"
| "dispatch (t, WsMessage parsed) s = on_message s parsed"
| "dispatch (t, WsError err) s = on_error s err"
| "dispatch (t, WsClosed) s = on_close s"
| "dispatch (t, TimerDue) s =
     (case timer s of
        None \<Rightarrow> s
      | Some due \<Rightarrow> if due \<le> t then on_timer (s\<lparr>timer := None\<rparr>) else s)"

definition run :: "(nat \<times> event) list \<Rightarrow> call_state \<Rightarrow> call_state" where
  "run evs s = fold dispatch evs s"

text \<open>
  \<^verbatim>\<open>callMCP(wsUrl, tool, items)\<close> at time \<open>now\<close>, with the id \<^verbatim>\<open>Math.random()\<close> gave and the
  events the runtime delivers afterwards. \<open>ctor_error\<close> is the message of the exception
  \<^verbatim>\<open>new WebSocket(wsUrl)\<close> throws, if it throws: the executor then stops, which rejects the
  promise, and neither the timer nor a handler exists.
\<close>

definition callMCP ::
  "nat \<Rightarrow> string \<Rightarrow> string option \<Rightarrow> (nat \<times> event) list \<Rightarrow> string \<Rightarrow> wire_item list \<Rightarrow> call_state" where
  "callMCP now rid ctor_error evs tool items =
     (case ctor_error of
        Some m \<Rightarrow>
          (callMCP_start now rid tool items)\<lparr>timer := None, promise := Some (Rejected (WsFailure m))\<rparr>
      | None \<Rightarrow> run evs (callMCP_start now rid tool items))"

text \<open>
  The \<^verbatim>\<open>message\<close> of the error a rejected call throws into the handler. For a tool error
  it is the string \<^verbatim>\<open>new Error(v)\<close> printed \<open>v\<close> as; the message handler rejects with
  \<open>McpToolError v\<close> only when that printing does not throw (lemma \<open>callMCP_printable\<close>), so
  the last case below never arises.
\<close>

fun error_message :: "(real \<Rightarrow> string) \<Rightarrow> failure \<Rightarrow> string" where
  "error_message fmt McpTimeout = ''mcp_timeout''"
| "error_message fmt McpClosed = ''mcp_closed''"
| "error_message fmt (WsFailure m) = m"
| "error_message fmt (McpToolError v) = (case js_String fmt v of Some m \<Rightarrow> m | None \<Rightarrow> [])"

section \<open>The handler\<close>

text \<open>
  The request as the handler reads it, the three environment variables (\<open>None\<close> when
  unset), and the response: \<^verbatim>\<open>res.status(c).end()\<close> has no body, \<^verbatim>\<open>res.json(v)\<close> answers 200.
\<close>

record request =
  req_method :: string
  req_body :: jsval

record environment =
  SUPABASE_URL :: "string option"
  SUPABASE_SERVICE_ROLE_KEY :: "string option"
  MCP_WS_URL :: "string option"

record response =
  res_status :: nat
  res_body :: "jsval option"

text \<open>
  \<^verbatim>\<open>{data, error}\<close> of the select on \<^verbatim>\<open>urls_filtered\<close>: \<open>sel_data\<close> is \<open>None\<close> for \<^verbatim>\<open>null\<close>,
  \<open>sel_error\<close> holds the message of the error, if there is one.
\<close>

record select_result =
  sel_data :: "candidate list option"
  sel_error :: "string option"

text \<open>
  What the handler meets outside itself: the store (the select by \<^verbatim>\<open>upload_id\<close>, the insert
  into \<^verbatim>\<open>urls_processed\<close> with the message of its error), the WebSocket constructor, the
  random id, the clock, the events the connection and the timer deliver, the host's
  printing of numbers, and the message of the TypeError that destructuring a nullish
  \<^verbatim>\<open>req.body\<close> throws. \<^verbatim>\<open>createClient\<close> and the two store calls are taken not to throw.
\<close>

record world =
  select_filtered :: "jsval \<Rightarrow> select_result"
  insert_processed :: "row list \<Rightarrow> string option"
  ws_ctor_error :: "string \<Rightarrow> string option"
  random_id :: string
  call_time :: nat
  ws_events :: "(nat \<times> event) list"
  num_to_string :: "real \<Rightarrow> string"
  type_error_text :: string

text \<open>The handler's calls to the outside, in order.\<close>

datatype effect =
    DbSelect jsval
  | McpCall string string "wire_item list"
  | DbInsert "row list"

text \<open>\<^verbatim>\<open>!v\<close> for an environment variable: unset or empty.\<close>

definition env_missing :: "string option \<Rightarrow> bool" where
  "env_missing v = (case v of None \<Rightarrow> True | Some t \<Rightarrow> t = [])"

text \<open>\<^verbatim>\<open>res.status(c).json({ error: m })\<close>\<close>

definition json_error :: "nat \<Rightarrow> string \<Rightarrow> response" where
  "json_error c m = \<lparr>res_status = c, res_body = Some (JObj [(''error'', JStr m)])\<rparr>"

text \<open>\<^verbatim>\<open>e?.message || "server_error"\<close> of the outer \<^verbatim>\<open>catch\<close>\<close>

definition caught :: "string \<Rightarrow> response" where
  "caught m = json_error 500 (if m = [] then ''server_error'' else m)"

text \<open>
  The handler of \<^verbatim>\<open>part_000\<close>. The result is \<open>None\<close> when \<^verbatim>\<open>await callMCP(...)\<close> never
  resumes: the promise is still pending after every event of the world. The scheme check
  that follows the handler in the file (marked to be deleted) stands outside every
  function and is not part of it; \<^verbatim>\<open>api/categorize.ts\<close> is a stub of the handler that
  answers the trivial success for every valid request and calls nothing.
\<close>

definition handler :: "world \<Rightarrow> environment \<Rightarrow> request \<Rightarrow> (response \<times> effect list) option" where
  "handler w env req =
     (if req_method req \<noteq> ''POST'' then Some (\<lparr>res_status = 405, res_body = None\<rparr>, [])
      else if nullish (req_body req) then Some (caught (type_error_text w), [])
      else
        let upload_id = get_prop (req_body req) ''upload_id'' in
        if \<not> truthy upload_id then Some (json_error 400 ''missing upload_id'', [])
        else if env_missing (SUPABASE_URL env) \<or> env_missing (SUPABASE_SERVICE_ROLE_KEY env) then
          Some (json_error 500 ''server_misconfig: missing Supabase envs'', [])
        else if env_missing (MCP_WS_URL env) then
          Some (json_error 500 ''server_misconfig: missing MCP_WS_URL'', [])
        else
          let ws_url = (case MCP_WS_URL env of None \<Rightarrow> [] | Some u \<Rightarrow> u);
              sel = select_filtered w upload_id
          in
          case sel_error sel of
            Some m \<Rightarrow> Some (json_error 400 m, [DbSelect upload_id])
          | None \<Rightarrow>
             (let list = (case sel_data sel of None \<Rightarrow> [] | Some l \<Rightarrow> l) in
              if length list = 0 then
                Some (\<lparr>res_status = 200,
                       res_body = Some (JObj [(''ok'', JBool True), (''upload_id'', upload_id),
                                              (''processed'', JNum 0), (''coverage'', JNum 1),
                                              (''categories'', JArr [])])\<rparr>,
                      [DbSelect upload_id])
              else
                let items = shape_items MAX_ITEMS list;
                    call = callMCP (call_time w) (random_id w) (ws_ctor_error w ws_url)
                             (ws_events w) ''categorize_whatsapp'' items;
                    called = [DbSelect upload_id, McpCall ws_url ''categorize_whatsapp'' items]
                in
               (case promise call of
                  None \<Rightarrow> None
                | Some (Rejected e) \<Rightarrow> Some (caught (error_message (num_to_string w) e), called)
                | Some (Resolved r) \<Rightarrow>
                    let rs = rows list (assignments r);
                        final =
                          \<lparr>res_status = 200,
                           res_body = Some (JObj [(''ok'', JBool True), (''upload_id'', upload_id),
                                                  (''processed'', JNum (real (length rs))),
                                                  (''coverage'', if is_number (coverage r) then coverage r else JNull),
                                                  (''categories'', if isArray (categories r) then categories r else JArr [])])\<rparr>
                    in
                    if length rs > 0 then
                      (case insert_processed w rs of
                         Some m \<Rightarrow> Some (json_error 400 m, called @ [DbInsert rs])
                       | None \<Rightarrow> Some (final, called @ [DbInsert rs]))
                    else Some (final, called))))"

section \<open>Predicates of the properties\<close>

text \<open>
  The correlation id the message handler reads off a frame: none when the frame does not
  parse or parses to \<^verbatim>\<open>null\<close>, else the value of its \<^verbatim>\<open>id\<close> property.
\<close>

definition parsed_id :: "jsval option \<Rightarrow> jsval option" where
  "parsed_id parsed =
     (case parsed of
        None \<Rightarrow> None
      | Some msg \<Rightarrow> if nullish msg then None else Some (get_prop msg ''id''))"

text \<open>An event that is not a message carrying the id \<open>rid\<close>; an event that is not a transport error.\<close>

fun foreign :: "string \<Rightarrow> nat \<times> event \<Rightarrow> bool" where
  "foreign rid (t, WsMessage parsed) = (parsed_id parsed \<noteq> Some (JStr rid))"
| "foreign rid (t, e) = True"

fun no_error :: "nat \<times> event \<Rightarrow> bool" where
  "no_error (t, WsError m) = False"
| "no_error (t, e) = True"

text \<open>
  The call is still waiting, its timer due at \<open>due\<close>; the call has failed with the timeout
  or the closed error.
\<close>

definition waiting :: "nat \<Rightarrow> call_state \<Rightarrow> bool" where
  "waiting due s = (\<not> settled s \<and> promise s = None \<and> timer s = Some due)"

definition failed_quietly :: "call_state \<Rightarrow> bool" where
  "failed_quietly s =
     (settled s \<and> (promise s = Some (Rejected McpTimeout) \<or> promise s = Some (Rejected McpClosed)))"

text \<open>The promise is resolved; a result has the three normal forms; a resolved promise holds such a result.\<close>

definition resolved :: "call_state \<Rightarrow> bool" where
  "resolved s = (case promise s of Some (Resolved r) \<Rightarrow> True | _ \<Rightarrow> False)"

definition normalized :: "mcp_result \<Rightarrow> bool" where
  "normalized r = (isArray (assignments r) \<and> isArray (categories r) \<and> is_number (coverage r))"

definition promise_normalized :: "call_state \<Rightarrow> bool" where
  "promise_normalized s = (case promise s of Some (Resolved r) \<Rightarrow> normalized r | _ \<Rightarrow> True)"

text \<open>A promise rejected with a tool error holds a value that \<^verbatim>\<open>String\<close> prints.\<close>

definition promise_printable :: "call_state \<Rightarrow> bool" where
  "promise_printable s =
     (case promise s of Some (Rejected (McpToolError v)) \<Rightarrow> \<not> String_throws v | _ \<Rightarrow> True)"

text \<open>The list the handler works on: \<^verbatim>\<open>filtered ?? []\<close> of the select for the request's \<^verbatim>\<open>upload_id\<close>.\<close>

definition fetched :: "world \<Rightarrow> request \<Rightarrow> candidate list" where
  "fetched w req =
     (case sel_data (select_filtered w (get_prop (req_body req) ''upload_id'')) of
        None \<Rightarrow> [] | Some l \<Rightarrow> l)"

section \<open>Sample inputs\<close>

definition rec_a :: candidate where
  "rec_a = \<lparr>r_id = JNum 11, raw_text = JStr ''join https://chat.example/a'',
            url = JStr ''https://chat.example/a'', matched_keywords = JArr [JStr ''join'']\<rparr>"

definition rec_b :: candidate where
  "rec_b = \<lparr>r_id = JNum 12, raw_text = JStr ''promo'', url = JNull, matched_keywords = JArr []\<rparr>"

definition rec_c :: candidate where
  "rec_c = \<lparr>r_id = JNum 13, raw_text = JStr ''hello'', url = JNull, matched_keywords = JNull\<rparr>"

definition demo_world :: "candidate list \<Rightarrow> (nat \<times> event) list \<Rightarrow> world" where
  "demo_world list evs =
     \<lparr>select_filtered = (\<lambda>u. \<lparr>sel_data = Some list, sel_error = None\<rparr>),
      insert_processed = (\<lambda>rs. None),
      ws_ctor_error = (\<lambda>u. None),
      random_id = ''k3v9'',
      call_time = 0,
      ws_events = evs,
      num_to_string = (\<lambda>x. ''0''),
      type_error_text = ''TypeError''\<rparr>"

definition demo_env :: environment where
  "demo_env = \<lparr>SUPABASE_URL = Some ''https://db.example'',
               SUPABASE_SERVICE_ROLE_KEY = Some ''service-key'',
               MCP_WS_URL = Some ''wss://mcp.example''\<rparr>"

definition demo_post :: request where
  "demo_post = \<lparr>req_method = ''POST'', req_body = JObj [(''upload_id'', JStr ''u1'')]\<rparr>"

definition demo_reply :: jsval where
  "demo_reply = JObj [(''id'', JStr ''k3v9''), (''ok'', JBool True),
                      (''assignments'', JArr [JStr ''Jobs'', JStr '''']),
                      (''coverage'', JNum 0.8)]"

definition sloppy_reply :: jsval where
  "sloppy_reply = JObj [(''id'', JStr ''k3v9''), (''ok'', JBool True),
                        (''assignments'', JStr ''Jobs''), (''coverage'', JStr ''high'')]"

definition poison_reply :: jsval where
  "poison_reply = JObj [(''id'', JStr ''k3v9''), (''ok'', JBool False),
                        (''error'', JObj [(''toString'', JStr ''x'')])]"

definition bare_reply :: jsval where
  "bare_reply = JObj [(''id'', JStr ''k3v9''), (''ok'', JBool True)]"

section \<open>Lemmas\<close>

subsection \<open>Items and rows\<close>

lemma length_shape_items: "length (shape_items M list) = min (length list) M"
  by (simp add: shape_items_def)

lemma nth_shape_items:
  "k < min (length list) M \<Longrightarrow>
   shape_items M list ! k =
     \<lparr>item_i = k, item_text = raw_text (list ! k), item_url = url (list ! k),
      item_keywords = matched_keywords (list ! k)\<rparr>"
  by (simp add: shape_items_def nth_enumerate_eq)

lemma positions_shape_items: "map item_i (shape_items M list) = [0..<min (length list) M]"
  by (rule nth_equalityI) (simp_all add: length_shape_items nth_shape_items)

lemma length_rows: "length (rows list a) = length list"
  by (simp add: rows_def)

lemma nth_rows:
  "k < length list \<Longrightarrow>
   rows list a ! k =
     \<lparr>filtered_id = r_id (list ! k), category = js_or (opt_index a k) (JStr ''Other''),
      confidence = 0.9\<rparr>"
  by (simp add: rows_def nth_enumerate_eq)

lemma filtered_ids_rows: "map filtered_id (rows list a) = map r_id list"
  by (rule nth_equalityI) (simp_all add: length_rows nth_rows)

subsection \<open>The message handler and the events of a call\<close>

lemma on_message_foreign:
  "parsed_id parsed \<noteq> Some (JStr (req_id s)) \<Longrightarrow> on_message s parsed = s"
  by (auto simp: on_message_def parsed_id_def split: option.splits)

lemma settles_only_on_match:
  "promise s = None \<Longrightarrow> promise (on_message s parsed) \<noteq> None \<Longrightarrow>
   parsed_id parsed = Some (JStr (req_id s))"
proof (rule ccontr)
  assume pending: "promise s = None" and changed: "promise (on_message s parsed) \<noteq> None"
  assume "parsed_id parsed \<noteq> Some (JStr (req_id s))"
  then have "on_message s parsed = s" by (rule on_message_foreign)
  with pending changed show False by simp
qed

lemma match_settles_when_printable:
  assumes "parsed_id parsed = Some (JStr (req_id s))" "promise s = None"
    and "parsed = Some msg"
    and "truthy (get_prop msg ''ok'') \<or>
         \<not> String_throws (js_or (get_prop msg ''error'') (JStr ''mcp_tool_error''))"
  shows "promise (on_message s parsed) \<noteq> None"
  using assms
  by (auto simp: on_message_def parsed_id_def Let_def resolve_def reject_def settle_def
      ws_close_def clearTimeout_def split: option.splits if_splits)

lemma match_hangs_when_unprintable:
  assumes "parsed_id (Some msg) = Some (JStr (req_id s))" "promise s = None"
    and "\<not> truthy (get_prop msg ''ok'')"
    and "String_throws (js_or (get_prop msg ''error'') (JStr ''mcp_tool_error''))"
  shows "on_message s (Some msg) =
           s\<lparr>settled := True, timer := None, actions := actions s @ [AClearTimeout]\<rparr>"
  using assms
  by (auto simp: on_message_def parsed_id_def Let_def clearTimeout_def split: if_splits)

lemma req_id_dispatch: "req_id (dispatch ev s) = req_id s"
proof (cases ev)
  case (Pair t e)
  then show ?thesis
    by (cases e)
      (auto simp: on_open_def on_message_def on_error_def on_close_def on_timer_def Let_def
        resolve_def reject_def ws_close_def clearTimeout_def split: option.splits)
qed

lemma dispatch_quiet:
  assumes "foreign (req_id s) ev" "no_error ev" "waiting due s \<or> failed_quietly s"
  shows "waiting due (dispatch ev s) \<or> failed_quietly (dispatch ev s)"
proof (cases ev)
  case (Pair t e)
  show ?thesis
  proof (cases e)
    case WsOpen
    with Pair assms show ?thesis by (auto simp: on_open_def waiting_def failed_quietly_def)
  next
    case (WsMessage parsed)
    with Pair assms show ?thesis by (simp add: on_message_foreign)
  next
    case (WsError err)
    with Pair assms show ?thesis by simp
  next
    case WsClosed
    with Pair assms show ?thesis
      by (auto simp: on_close_def waiting_def failed_quietly_def reject_def settle_def clearTimeout_def)
  next
    case TimerDue
    with Pair assms show ?thesis
      by (auto simp: on_timer_def waiting_def failed_quietly_def reject_def settle_def ws_close_def
          split: option.splits)
  qed
qed

lemma run_quiet:
  "list_all (foreign (req_id s)) evs \<Longrightarrow> list_all no_error evs \<Longrightarrow>
   waiting due s \<or> failed_quietly s \<Longrightarrow>
   waiting due (run evs s) \<or> failed_quietly (run evs s)"
proof (induction evs arbitrary: s)
  case Nil
  then show ?case by (simp add: run_def)
next
  case (Cons ev evs)
  have "waiting due (dispatch ev s) \<or> failed_quietly (dispatch ev s)"
    using Cons.prems by (intro dispatch_quiet) simp_all
  moreover have "list_all (foreign (req_id (dispatch ev s))) evs"
    using Cons.prems by (simp add: req_id_dispatch)
  ultimately have "waiting due (run evs (dispatch ev s)) \<or> failed_quietly (run evs (dispatch ev s))"
    using Cons.prems by (intro Cons.IH) simp_all
  then show ?case by (simp add: run_def)
qed

lemma timer_due_settles:
  "waiting due s \<Longrightarrow> due \<le> t \<Longrightarrow> failed_quietly (dispatch (t, TimerDue) s)"
  by (auto simp: on_timer_def waiting_def failed_quietly_def reject_def settle_def ws_close_def)

lemma failed_quietly_timer: "failed_quietly s \<Longrightarrow> failed_quietly (dispatch (t, TimerDue) s)"
  by (auto simp: on_timer_def failed_quietly_def split: option.splits)

lemma waiting_start: "waiting (now + WS_TIMEOUT_MS) (callMCP_start now rid tool items)"
  by (simp add: waiting_def callMCP_start_def)

lemma run_snoc: "run (evs @ [ev]) s = dispatch ev (run evs s)"
  by (simp add: run_def)
lemmas handler_defs =
  on_open_def on_message_def on_error_def on_close_def on_timer_def
  resolve_def reject_def settle_def ws_close_def clearTimeout_def

lemma promise_sticky: "promise s = Some out \<Longrightarrow> promise (dispatch ev s) = Some out"
proof (cases ev)
  case (Pair t e)
  assume "promise s = Some out"
  with Pair show ?thesis
    by (cases e) (auto simp: handler_defs Let_def split: option.splits)
qed

lemma promise_sticky_run: "promise s = Some out \<Longrightarrow> promise (run evs s) = Some out"
  by (induction evs arbitrary: s) (simp_all add: run_def promise_sticky)

lemma dispatch_not_resolved:
  assumes "foreign (req_id s) ev" "\<not> resolved s"
  shows "\<not> resolved (dispatch ev s)"
proof (cases ev)
  case (Pair t e)
  show ?thesis
  proof (cases e)
    case (WsMessage parsed)
    with Pair assms show ?thesis by (simp add: on_message_foreign)
  next
    case WsOpen
    with Pair assms show ?thesis by (simp add: resolved_def on_open_def)
  next
    case (WsError err)
    with Pair assms show ?thesis
      by (auto simp: resolved_def handler_defs split: option.splits outcome.splits)
  next
    case WsClosed
    with Pair assms show ?thesis
      by (auto simp: resolved_def handler_defs split: option.splits outcome.splits)
  next
    case TimerDue
    with Pair assms show ?thesis
      by (auto simp: resolved_def handler_defs split: option.splits outcome.splits)
  qed
qed

lemma run_not_resolved:
  "list_all (foreign (req_id s)) evs \<Longrightarrow> \<not> resolved s \<Longrightarrow> \<not> resolved (run evs s)"
proof (induction evs arbitrary: s)
  case Nil
  then show ?case by (simp add: run_def)
next
  case (Cons ev evs)
  have "\<not> resolved (dispatch ev s)"
    using Cons.prems by (intro dispatch_not_resolved) simp_all
  moreover have "list_all (foreign (req_id (dispatch ev s))) evs"
    using Cons.prems by (simp add: req_id_dispatch)
  ultimately have "\<not> resolved (run evs (dispatch ev s))"
    by (rule Cons.IH[rotated])
  then show ?case by (simp add: run_def)
qed

lemma dispatch_normalized: "promise_normalized s \<Longrightarrow> promise_normalized (dispatch ev s)"
proof (cases ev)
  case (Pair t e)
  assume "promise_normalized s"
  with Pair show ?thesis
    by (cases e)
      (auto simp: promise_normalized_def normalized_def handler_defs Let_def
        split: option.splits outcome.splits)
qed

lemma run_normalized: "promise_normalized s \<Longrightarrow> promise_normalized (run evs s)"
  by (induction evs arbitrary: s) (simp_all add: run_def dispatch_normalized)

lemma callMCP_normalized:
  "promise (callMCP now rid ctor evs tool items) = Some (Resolved r) \<Longrightarrow> normalized r"
proof -
  assume a: "promise (callMCP now rid ctor evs tool items) = Some (Resolved r)"
  have "promise_normalized (callMCP_start now rid tool items)"
    by (simp add: promise_normalized_def callMCP_start_def)
  then have "promise_normalized (run evs (callMCP_start now rid tool items))"
    by (rule run_normalized)
  with a show ?thesis
    by (cases ctor) (auto simp: callMCP_def promise_normalized_def)
qed

lemma dispatch_printable: "promise_printable s \<Longrightarrow> promise_printable (dispatch ev s)"
proof (cases ev)
  case (Pair t e)
  assume "promise_printable s"
  with Pair show ?thesis
    by (cases e)
      (auto simp: promise_printable_def handler_defs Let_def
        split: option.splits outcome.splits failure.splits)
qed

lemma run_printable: "promise_printable s \<Longrightarrow> promise_printable (run evs s)"
  by (induction evs arbitrary: s) (simp_all add: run_def dispatch_printable)

lemma callMCP_printable:
  assumes "promise (callMCP now rid ctor evs tool items) = Some (Rejected (McpToolError v))"
  shows "\<not> String_throws v"
proof -
  have "promise_printable (callMCP_start now rid tool items)"
    by (simp add: promise_printable_def callMCP_start_def)
  then have "promise_printable (run evs (callMCP_start now rid tool items))"
    by (rule run_printable)
  with assms show ?thesis
    by (cases ctor) (auto simp: callMCP_def promise_printable_def)
qed

lemma those_map_None_iff: "(those (map f xs) = None) = (\<exists>x\<in>set xs. f x = None)"
  by (induction xs) (auto split: option.splits)

lemma nullish_prints: "nullish v \<Longrightarrow> \<not> String_throws v"
  by (cases v) simp_all

lemma js_String_None_iff: "(js_String fmt v = None) = String_throws v"
proof (induction fmt v rule: js_String.induct)
  case (6 fmt xs)
  have "(js_String fmt (JArr xs) = None) =
        (\<exists>x\<in>set xs. (if nullish x then Some [] else js_String fmt x) = None)"
    by (simp add: those_map_None_iff)
  also have "\<dots> = (\<exists>x\<in>set xs. \<not> nullish x \<and> js_String fmt x = None)"
    by (rule bex_cong) simp_all
  also have "\<dots> = (\<exists>x\<in>set xs. \<not> nullish x \<and> String_throws x)"
    using 6 by blast
  also have "\<dots> = (\<exists>x\<in>set xs. String_throws x)"
    using nullish_prints by blast
  finally show ?case by (simp add: list_ex_iff)
qed simp_all

lemma foreign_ids_never_resolve:
  assumes "list_all (foreign rid) evs"
  shows "\<not> resolved (callMCP now rid ctor evs tool items)"
proof -
  have "\<not> resolved (callMCP_start now rid tool items)"
    by (simp add: resolved_def callMCP_start_def)
  with assms have "\<not> resolved (run evs (callMCP_start now rid tool items))"
    by (intro run_not_resolved) (simp_all add: callMCP_start_def)
  then show ?thesis
    by (cases ctor) (simp_all add: callMCP_def resolved_def)
qed

lemma foreign_ids_time_out:
  assumes "list_all (foreign rid) evs" "list_all no_error evs" "now + WS_TIMEOUT_MS \<le> t"
  shows "failed_quietly (callMCP now rid None (evs @ [(t, TimerDue)]) tool items)"
proof -
  let ?s0 = "callMCP_start now rid tool items"
  have "waiting (now + WS_TIMEOUT_MS) (run evs ?s0) \<or> failed_quietly (run evs ?s0)"
    using assms by (intro run_quiet) (simp_all add: waiting_start, simp add: callMCP_start_def)
  then have "failed_quietly (dispatch (t, TimerDue) (run evs ?s0))"
    using assms timer_due_settles failed_quietly_timer by blast
  then show ?thesis
    by (simp add: callMCP_def run_snoc)
qed

subsection \<open>The handler\<close>

lemma is_number_iff: "is_number v = (\<exists>c. v = JNum c)"
  by (cases v) simp_all

lemma isArray_iff: "isArray v = (\<exists>xs. v = JArr xs)"
  by (cases v) simp_all

lemma rows_Nil_iff: "(rows list a = []) = (list = [])"
  using length_rows [of list a] by (metis length_0_conv)

lemma handler_200_guards:
  assumes "handler w env req = Some (resp, effs)"
    and "res_status resp = 200"
  shows "req_method req = ''POST'' \<and> \<not> nullish (req_body req) \<and>
         truthy (get_prop (req_body req) ''upload_id'') \<and>
         \<not> env_missing (SUPABASE_URL env) \<and> \<not> env_missing (SUPABASE_SERVICE_ROLE_KEY env) \<and>
         \<not> env_missing (MCP_WS_URL env)"
  using assms
  by (auto simp: handler_def Let_def json_error_def caught_def split: if_splits)

lemma handler_200_select:
  assumes "handler w env req = Some (resp, effs)"
    and "res_status resp = 200"
  shows "sel_error (select_filtered w (get_prop (req_body req) ''upload_id'')) = None"
proof (rule ccontr)
  assume "sel_error (select_filtered w (get_prop (req_body req) ''upload_id'')) \<noteq> None"
  then obtain m where "sel_error (select_filtered w (get_prop (req_body req) ''upload_id'')) = Some m"
    by blast
  with handler_200_guards [OF assms] have "handler w env req =
      Some (json_error 400 m, [DbSelect (get_prop (req_body req) ''upload_id'')])"
    by (simp add: handler_def Let_def)
  with assms show False by (auto simp: json_error_def)
qed

lemma handler_success_cases:
  assumes "handler w env req = Some (resp, effs)"
    and "res_status resp = 200"
  shows "(fetched w req = [] \<and>
          resp = \<lparr>res_status = 200,
                  res_body = Some (JObj [(''ok'', JBool True),
                                         (''upload_id'', get_prop (req_body req) ''upload_id''),
                                         (''processed'', JNum 0), (''coverage'', JNum 1),
                                         (''categories'', JArr [])])\<rparr> \<and>
          effs = [DbSelect (get_prop (req_body req) ''upload_id'')]) \<or>
         (\<exists>r ws_url.
            fetched w req \<noteq> [] \<and>
            MCP_WS_URL env = Some ws_url \<and>
            promise (callMCP (call_time w) (random_id w) (ws_ctor_error w ws_url) (ws_events w)
                       ''categorize_whatsapp'' (shape_items MAX_ITEMS (fetched w req))) =
              Some (Resolved r) \<and>
            resp = \<lparr>res_status = 200,
                    res_body = Some (JObj [(''ok'', JBool True),
                                           (''upload_id'', get_prop (req_body req) ''upload_id''),
                                           (''processed'',
                                            JNum (real (length (rows (fetched w req) (assignments r))))),
                                           (''coverage'',
                                            if is_number (coverage r) then coverage r else JNull),
                                           (''categories'',
                                            if isArray (categories r) then categories r else JArr [])])\<rparr> \<and>
            effs = [DbSelect (get_prop (req_body req) ''upload_id''),
                    McpCall ws_url ''categorize_whatsapp'' (shape_items MAX_ITEMS (fetched w req)),
                    DbInsert (rows (fetched w req) (assignments r))])"
proof -
  note g = handler_200_guards [OF assms] handler_200_select [OF assms]
  from g obtain ws_url where u: "MCP_WS_URL env = Some ws_url"
    by (cases "MCP_WS_URL env") (simp_all add: env_missing_def)
  let ?uid = "get_prop (req_body req) ''upload_id''"
  let ?list = "fetched w req"
  let ?call = "callMCP (call_time w) (random_id w) (ws_ctor_error w ws_url) (ws_events w)
                 ''categorize_whatsapp'' (shape_items MAX_ITEMS ?list)"
  show ?thesis
  proof (cases "?list = []")
    case True
    with g u have "handler w env req =
        Some (\<lparr>res_status = 200,
               res_body = Some (JObj [(''ok'', JBool True), (''upload_id'', ?uid),
                                      (''processed'', JNum 0), (''coverage'', JNum 1),
                                      (''categories'', JArr [])])\<rparr>,
              [DbSelect ?uid])"
      by (simp add: handler_def fetched_def Let_def)
    with assms True show ?thesis by auto
  next
    case False
    show ?thesis
    proof (cases "promise ?call")
      case None
      with g u False have "handler w env req = None"
        by (simp add: handler_def fetched_def Let_def)
      with assms show ?thesis by simp
    next
      case (Some out)
      show ?thesis
      proof (cases out)
        case (Rejected e)
        with Some g u False have "handler w env req =
            Some (caught (error_message (num_to_string w) e),
                  [DbSelect ?uid, McpCall ws_url ''categorize_whatsapp'' (shape_items MAX_ITEMS ?list)])"
          by (simp add: handler_def fetched_def Let_def)
        with assms show ?thesis by (auto simp: caught_def json_error_def)
      next
        case (Resolved r)
        show ?thesis
        proof (cases "insert_processed w (rows ?list (assignments r))")
          case (Some m)
          with Resolved \<open>promise ?call = Some out\<close> g u False have "handler w env req =
              Some (json_error 400 m,
                    [DbSelect ?uid, McpCall ws_url ''categorize_whatsapp'' (shape_items MAX_ITEMS ?list),
                     DbInsert (rows ?list (assignments r))])"
            by (simp add: handler_def fetched_def Let_def rows_Nil_iff)
          with assms show ?thesis by (auto simp: json_error_def)
        next
          case None
          with Resolved \<open>promise ?call = Some out\<close> g u False have "handler w env req =
              Some (\<lparr>res_status = 200,
                     res_body = Some (JObj [(''ok'', JBool True), (''upload_id'', ?uid),
                                            (''processed'', JNum (real (length (rows ?list (assignments r))))),
                                            (''coverage'',
                                             if is_number (coverage r) then coverage r else JNull),
                                            (''categories'',
                                             if isArray (categories r) then categories r else JArr [])])\<rparr>,
                    [DbSelect ?uid, McpCall ws_url ''categorize_whatsapp'' (shape_items MAX_ITEMS ?list),
                     DbInsert (rows ?list (assignments r))])"
            by (simp add: handler_def fetched_def Let_def rows_Nil_iff)
          with assms False u Resolved \<open>promise ?call = Some out\<close> show ?thesis by auto
        qed
      qed
    qed
  qed
qed

lemma demo_run_501:
  "handler (demo_world (replicate 501 rec_c) [(10, WsOpen), (20, WsMessage (Some demo_reply))])
       demo_env demo_post =
     Some (\<lparr>res_status = 200,
            res_body = Some (JObj [(''ok'', JBool True), (''upload_id'', JStr ''u1''),
                                   (''processed'', JNum 501), (''coverage'', JNum 0.8),
                                   (''categories'', JArr [])])\<rparr>,
           [DbSelect (JStr ''u1''),
            McpCall ''wss://mcp.example'' ''categorize_whatsapp''
              (shape_items MAX_ITEMS (replicate 501 rec_c)),
            DbInsert (rows (replicate 501 rec_c) (JArr [JStr ''Jobs'', JStr '''']))])"
  by (simp add: handler_def demo_world_def demo_env_def demo_post_def env_missing_def Let_def
      callMCP_def run_def callMCP_start_def on_open_def on_message_def demo_reply_def
      resolve_def settle_def ws_close_def clearTimeout_def length_rows rows_Nil_iff)

section \<open>Properties\<close>

text \<open>
  C1, as the claim states it, fails. With 501 candidates and the cap of 500, only 500
  items are sent, but 501 rows are built and inserted, the response reports \<open>processed\<close>
  as 501, and the record at position 500 has a row of its own with the category
  \<^verbatim>\<open>"Other"\<close>.
\<close>

theorem rows_beyond_cap_counterexample:
  "handler (demo_world (replicate 501 rec_c) [(10, WsOpen), (20, WsMessage (Some demo_reply))])
       demo_env demo_post =
     Some (\<lparr>res_status = 200,
            res_body = Some (JObj [(''ok'', JBool True), (''upload_id'', JStr ''u1''),
                                   (''processed'', JNum 501), (''coverage'', JNum 0.8),
                                   (''categories'', JArr [])])\<rparr>,
           [DbSelect (JStr ''u1''),
            McpCall ''wss://mcp.example'' ''categorize_whatsapp''
              (shape_items MAX_ITEMS (replicate 501 rec_c)),
            DbInsert (rows (replicate 501 rec_c) (JArr [JStr ''Jobs'', JStr '''']))]) \<and>
   length (shape_items MAX_ITEMS (replicate 501 rec_c)) = 500 \<and>
   length (rows (replicate 501 rec_c) (JArr [JStr ''Jobs'', JStr ''''])) \<noteq>
     min (length (replicate 501 rec_c)) MAX_ITEMS \<and>
   rows (replicate 501 rec_c) (JArr [JStr ''Jobs'', JStr '''']) ! 500 =
     \<lparr>filtered_id = JNum 13, category = JStr ''Other'', confidence = 0.9\<rparr>"
proof (intro conjI)
  show "length (shape_items MAX_ITEMS (replicate 501 rec_c)) = 500"
    by (simp add: length_shape_items MAX_ITEMS_def)
  show "length (rows (replicate 501 rec_c) (JArr [JStr ''Jobs'', JStr ''''])) \<noteq>
     min (length (replicate 501 rec_c)) MAX_ITEMS"
    by (simp add: length_rows MAX_ITEMS_def)
  show "rows (replicate 501 rec_c) (JArr [JStr ''Jobs'', JStr '''']) ! 500 =
     \<lparr>filtered_id = JNum 13, category = JStr ''Other'', confidence = 0.9\<rparr>"
    by (simp add: nth_rows js_or_def rec_c_def)
qed (rule demo_run_501)

text \<open>
  C1, amended. Only the wire items are capped: \<open>min N M\<close> items are sent, with \<open>M\<close> the
  cap \<open>MAX_ITEMS\<close>. The rows are built from the whole fetched list: one row per candidate,
  in order, with the candidate's id and the fixed confidence; a position at or beyond
  the cap gets its category by the same rule as any other (the assignment at that
  position if there is a truthy one, else \<^verbatim>\<open>"Other"\<close>). A handler that answers 200 for a
  list that is not empty has called the remote once, with the capped items, has got a
  result whose assignments are an array, and has inserted the rows built from the whole
  list and those assignments; it reports \<open>processed\<close> as the length of the whole list.
\<close>

theorem rows_cover_whole_list:
  "(\<forall>k<length list.
      rows list (JArr xs) ! k =
        \<lparr>filtered_id = r_id (list ! k),
         category = (if k < length xs \<and> truthy (xs ! k) then xs ! k else JStr ''Other''),
         confidence = 0.9\<rparr>) \<and>
   length (rows list (JArr xs)) = length list \<and>
   length (shape_items MAX_ITEMS list) = min (length list) MAX_ITEMS \<and>
   (handler w env req = Some (resp, effs) \<and> res_status resp = 200 \<longrightarrow>
      (\<exists>b. res_body resp = Some b \<and>
           get_prop b ''processed'' = JNum (real (length (fetched w req))))) \<and>
   (handler w env req = Some (resp, effs) \<and> res_status resp = 200 \<and> fetched w req \<noteq> [] \<longrightarrow>
      (\<exists>ws_url r bs.
         MCP_WS_URL env = Some ws_url \<and>
         promise (callMCP (call_time w) (random_id w) (ws_ctor_error w ws_url) (ws_events w)
                    ''categorize_whatsapp'' (shape_items MAX_ITEMS (fetched w req))) =
           Some (Resolved r) \<and>
         assignments r = JArr bs \<and>
         effs = [DbSelect (get_prop (req_body req) ''upload_id''),
                 McpCall ws_url ''categorize_whatsapp'' (shape_items MAX_ITEMS (fetched w req)),
                 DbInsert (rows (fetched w req) (JArr bs))]))"
proof (intro conjI impI allI)
  show "k < length list \<Longrightarrow>
      rows list (JArr xs) ! k =
        \<lparr>filtered_id = r_id (list ! k),
         category = (if k < length xs \<and> truthy (xs ! k) then xs ! k else JStr ''Other''),
         confidence = 0.9\<rparr>" for k
    by (simp add: nth_rows js_or_def)
  show "length (rows list (JArr xs)) = length list" by (rule length_rows)
  show "length (shape_items MAX_ITEMS list) = min (length list) MAX_ITEMS"
    by (rule length_shape_items)
next
  assume "handler w env req = Some (resp, effs) \<and> res_status resp = 200"
  then have "handler w env req = Some (resp, effs)" "res_status resp = 200" by simp_all
  from handler_success_cases [OF this]
  show "\<exists>b. res_body resp = Some b \<and>
           get_prop b ''processed'' = JNum (real (length (fetched w req)))"
    by (auto simp: length_rows)
next
  assume a: "handler w env req = Some (resp, effs) \<and> res_status resp = 200 \<and> fetched w req \<noteq> []"
  then have "handler w env req = Some (resp, effs)" "res_status resp = 200" by simp_all
  from handler_success_cases [OF this] a
  obtain r ws_url where u: "MCP_WS_URL env = Some ws_url"
    and p: "promise (callMCP (call_time w) (random_id w) (ws_ctor_error w ws_url) (ws_events w)
                    ''categorize_whatsapp'' (shape_items MAX_ITEMS (fetched w req))) =
           Some (Resolved r)"
    and e: "effs = [DbSelect (get_prop (req_body req) ''upload_id''),
                 McpCall ws_url ''categorize_whatsapp'' (shape_items MAX_ITEMS (fetched w req)),
                 DbInsert (rows (fetched w req) (assignments r))]"
    by blast
  from callMCP_normalized [OF p] obtain bs where b: "assignments r = JArr bs"
    by (auto simp: normalized_def isArray_iff)
  from u p e b show "\<exists>ws_url r bs.
         MCP_WS_URL env = Some ws_url \<and>
         promise (callMCP (call_time w) (random_id w) (ws_ctor_error w ws_url) (ws_events w)
                    ''categorize_whatsapp'' (shape_items MAX_ITEMS (fetched w req))) =
           Some (Resolved r) \<and>
         assignments r = JArr bs \<and>
         effs = [DbSelect (get_prop (req_body req) ''upload_id''),
                 McpCall ws_url ''categorize_whatsapp'' (shape_items MAX_ITEMS (fetched w req)),
                 DbInsert (rows (fetched w req) (JArr bs))]"
    by auto
qed

theorem rows_cover_whole_list_witness:
  "handler (demo_world (replicate 501 rec_c) [(10, WsOpen), (20, WsMessage (Some demo_reply))])
       demo_env demo_post =
     Some (\<lparr>res_status = 200,
            res_body = Some (JObj [(''ok'', JBool True), (''upload_id'', JStr ''u1''),
                                   (''processed'', JNum 501), (''coverage'', JNum 0.8),
                                   (''categories'', JArr [])])\<rparr>,
           [DbSelect (JStr ''u1''),
            McpCall ''wss://mcp.example'' ''categorize_whatsapp''
              (shape_items MAX_ITEMS (replicate 501 rec_c)),
            DbInsert (rows (replicate 501 rec_c) (JArr [JStr ''Jobs'', JStr '''']))]) \<and>
   length (fetched (demo_world (replicate 501 rec_c) [(10, WsOpen), (20, WsMessage (Some demo_reply))])
             demo_post) = 501 \<and>
   length (shape_items MAX_ITEMS (replicate 501 rec_c)) = 500 \<and>
   length (rows (replicate 501 rec_c) (JArr [JStr ''Jobs'', JStr ''''])) = 501 \<and>
   rows (replicate 501 rec_c) (JArr [JStr ''Jobs'', JStr '''']) ! 500 =
     \<lparr>filtered_id = r_id rec_c, category = JStr ''Other'', confidence = 0.9\<rparr>"
  using rows_cover_whole_list
      [of "replicate 501 rec_c" "[JStr ''Jobs'', JStr '''']"
        "demo_world (replicate 501 rec_c) [(10, WsOpen), (20, WsMessage (Some demo_reply))]"
        demo_env demo_post
        "\<lparr>res_status = 200,
            res_body = Some (JObj [(''ok'', JBool True), (''upload_id'', JStr ''u1''),
                                   (''processed'', JNum 501), (''coverage'', JNum 0.8),
                                   (''categories'', JArr [])])\<rparr>"
        "[DbSelect (JStr ''u1''),
            McpCall ''wss://mcp.example'' ''categorize_whatsapp''
              (shape_items MAX_ITEMS (replicate 501 rec_c)),
            DbInsert (rows (replicate 501 rec_c) (JArr [JStr ''Jobs'', JStr '''']))]"]
    demo_run_501
  by (simp add: fetched_def demo_world_def demo_post_def MAX_ITEMS_def)

text \<open>
  C2. The message handler acts without reading \<open>settled\<close>. The timer settles the call
  with the timeout at 30000 ms; the matching reply that arrives 5 ms later still clears
  the timer, calls \<^verbatim>\<open>resolve\<close> and calls \<^verbatim>\<open>ws.close()\<close> a second time. The outcome of the
  promise stays the timeout (lemma \<open>promise_sticky_run\<close>).
\<close>

theorem late_message_still_acts:
  "promise (run [(10, WsOpen), (30000, TimerDue)]
              (callMCP_start 0 ''k3v9'' ''categorize_whatsapp'' [])) = Some (Rejected McpTimeout) \<and>
   settled (run [(10, WsOpen), (30000, TimerDue)]
              (callMCP_start 0 ''k3v9'' ''categorize_whatsapp'' [])) \<and>
   actions (run [(10, WsOpen), (30000, TimerDue), (30005, WsMessage (Some demo_reply))]
              (callMCP_start 0 ''k3v9'' ''categorize_whatsapp'' [])) =
     actions (run [(10, WsOpen), (30000, TimerDue)]
                (callMCP_start 0 ''k3v9'' ''categorize_whatsapp'' [])) @
     [AClearTimeout,
      AResolve \<lparr>assignments = JArr [JStr ''Jobs'', JStr ''''], categories = JArr [],
                coverage = JNum 0.8\<rparr>,
      AClose]"
  by (simp add: run_def callMCP_start_def WS_TIMEOUT_MS_def on_open_def on_timer_def
      on_message_def Let_def demo_reply_def resolve_def clearTimeout_def
      reject_def settle_def ws_close_def)

text \<open>
  C3. On the transport error path the call is rejected and \<^verbatim>\<open>ws.close()\<close> is never
  attempted: after the connection opens and then reports an error, the log of the call
  holds the send, the cleared timer and the rejection, and no close.
\<close>

theorem error_path_leaves_connection:
  "promise (run [(10, WsOpen), (20, WsError ''ECONNRESET'')]
              (callMCP_start 0 ''k3v9'' ''categorize_whatsapp'' [])) =
     Some (Rejected (WsFailure ''ECONNRESET'')) \<and>
   actions (run [(10, WsOpen), (20, WsError ''ECONNRESET'')]
              (callMCP_start 0 ''k3v9'' ''categorize_whatsapp'' [])) =
     [ASend \<lparr>env_id = ''k3v9'', env_tool = ''categorize_whatsapp'', env_items = []\<rparr>,
      AClearTimeout, AReject (WsFailure ''ECONNRESET'')] \<and>
   AClose \<notin> set (actions (run [(10, WsOpen), (20, WsError ''ECONNRESET'')]
              (callMCP_start 0 ''k3v9'' ''categorize_whatsapp'' [])))"
  by (simp add: run_def callMCP_start_def on_open_def on_error_def clearTimeout_def
      reject_def settle_def)

text \<open>
  C4. A frame with the request's id does not always settle the call. The call is made at
  time 0 with the id \<^verbatim>\<open>k3v9\<close>; the connection opens, and the frame \<^verbatim>\<open>{"id": "k3v9", "ok":
  false, "error": {"toString": "x"}}\<close> arrives. Its id is the request's, the timer is
  cleared and \<open>settled\<close> is set, but building the error throws inside the \<^verbatim>\<open>try\<close>: the
  promise is neither resolved nor rejected and the connection is not closed. Nothing
  settles the call afterwards, neither the time of the deadline nor the close nor an
  error of the connection, and the handler that awaits the call never answers. (Frames
  with another id are discarded and never resolve the call: lemmas \<open>on_message_foreign\<close>,
  \<open>settles_only_on_match\<close>, \<open>foreign_ids_never_resolve\<close>, \<open>foreign_ids_time_out\<close>.)
\<close>

theorem matching_error_frame_hangs:
  "parsed_id (Some poison_reply) = Some (JStr ''k3v9'') \<and>
   promise (run [(10, WsOpen), (20, WsMessage (Some poison_reply))]
              (callMCP_start 0 ''k3v9'' ''categorize_whatsapp'' [])) = None \<and>
   settled (run [(10, WsOpen), (20, WsMessage (Some poison_reply))]
              (callMCP_start 0 ''k3v9'' ''categorize_whatsapp'' [])) \<and>
   timer (run [(10, WsOpen), (20, WsMessage (Some poison_reply))]
              (callMCP_start 0 ''k3v9'' ''categorize_whatsapp'' [])) = None \<and>
   actions (run [(10, WsOpen), (20, WsMessage (Some poison_reply))]
              (callMCP_start 0 ''k3v9'' ''categorize_whatsapp'' [])) =
     [ASend \<lparr>env_id = ''k3v9'', env_tool = ''categorize_whatsapp'', env_items = []\<rparr>,
      AClearTimeout] \<and>
   promise (run [(10, WsOpen), (20, WsMessage (Some poison_reply)), (30000, TimerDue),
                 (30010, WsClosed), (30020, WsError ''ECONNRESET'')]
              (callMCP_start 0 ''k3v9'' ''categorize_whatsapp'' [])) = None \<and>
   handler (demo_world [rec_a]
              [(10, WsOpen), (20, WsMessage (Some poison_reply)), (30000, TimerDue),
               (30010, WsClosed), (30020, WsError ''ECONNRESET'')])
       demo_env demo_post = None"
  by (simp add: run_def callMCP_def callMCP_start_def poison_reply_def parsed_id_def
      on_open_def on_message_def on_timer_def on_close_def on_error_def js_or_def
      clearTimeout_def Let_def handler_def demo_world_def demo_env_def demo_post_def
      env_missing_def)

text \<open>
  C5, as the claim states it, fails. A call made at time 0 has its timer due at 30000
  before anything is sent. The connection opens, and the request is sent, at 1000: the
  timer is not due at 1000 + 30000, and at 30000, which is 29000 ms after the send,
  it rejects the call with the timeout.
\<close>

theorem timer_not_started_at_send_counterexample:
  "timer (callMCP_start 0 ''k3v9'' ''categorize_whatsapp'' []) = Some 30000 \<and>
   actions (callMCP_start 0 ''k3v9'' ''categorize_whatsapp'' []) = [] \<and>
   actions (run [(1000, WsOpen)] (callMCP_start 0 ''k3v9'' ''categorize_whatsapp'' [])) =
     [ASend \<lparr>env_id = ''k3v9'', env_tool = ''categorize_whatsapp'', env_items = []\<rparr>] \<and>
   timer (run [(1000, WsOpen)] (callMCP_start 0 ''k3v9'' ''categorize_whatsapp'' [])) \<noteq>
     Some (1000 + WS_TIMEOUT_MS) \<and>
   promise (run [(1000, WsOpen), (30000, TimerDue)]
              (callMCP_start 0 ''k3v9'' ''categorize_whatsapp'' [])) = Some (Rejected McpTimeout)"
  by (simp add: run_def callMCP_start_def WS_TIMEOUT_MS_def on_open_def on_timer_def
      reject_def settle_def ws_close_def)

text \<open>
  C5, amended. The timer of \<open>WS_TIMEOUT_MS\<close> is started when the call is made, right after
  the connection object is created and before anything is sent; the open handler, which
  sends the request, leaves the timer as it is.
\<close>

theorem timer_started_at_call:
  "timer (callMCP_start now rid tool items) = Some (now + WS_TIMEOUT_MS) \<and>
   actions (callMCP_start now rid tool items) = [] \<and>
   timer (dispatch (t, WsOpen) s) = timer s \<and>
   actions (dispatch (t, WsOpen) s) =
     actions s @ [ASend \<lparr>env_id = req_id s, env_tool = req_tool s, env_items = req_items s\<rparr>]"
  by (simp add: callMCP_start_def on_open_def)

text \<open>
  C6. A matching reply whose \<^verbatim>\<open>ok\<close> is truthy (\<^verbatim>\<open>true\<close> in particular) makes the handler
  call \<^verbatim>\<open>resolve\<close> with: the reply's \<^verbatim>\<open>assignments\<close> if that is an array, else the empty
  array; its \<^verbatim>\<open>categories\<close> if that is an array, else the empty array; its \<^verbatim>\<open>coverage\<close>
  if that is a number, else 1. A pending call is resolved with exactly that result.
\<close>

theorem success_result_normalized:
  assumes "get_prop msg ''id'' = JStr (req_id s)"
    and "truthy (get_prop msg ''ok'')"
    and "r = \<lparr>assignments = (case get_prop msg ''assignments'' of JArr xs \<Rightarrow> JArr xs | _ \<Rightarrow> JArr []),
              categories = (case get_prop msg ''categories'' of JArr xs \<Rightarrow> JArr xs | _ \<Rightarrow> JArr []),
              coverage = (case get_prop msg ''coverage'' of JNum x \<Rightarrow> JNum x | _ \<Rightarrow> JNum 1)\<rparr>"
  shows "actions (on_message s (Some msg)) = actions s @ [AClearTimeout, AResolve r, AClose] \<and>
         (promise s = None \<longrightarrow> promise (on_message s (Some msg)) = Some (Resolved r))"
proof -
  have "\<not> nullish msg"
    using assms(1) by (cases msg) simp_all
  moreover have "(if isArray v then v else JArr []) = (case v of JArr xs \<Rightarrow> JArr xs | _ \<Rightarrow> JArr [])" for v
    by (cases v) simp_all
  moreover have "(if is_number v then v else JNum 1) = (case v of JNum x \<Rightarrow> JNum x | _ \<Rightarrow> JNum 1)" for v
    by (cases v) simp_all
  ultimately show ?thesis
    using assms
    by (simp add: on_message_def Let_def resolve_def settle_def ws_close_def clearTimeout_def)
qed

theorem success_result_normalized_witness:
  "promise (on_message (callMCP_start 0 ''k3v9'' ''categorize_whatsapp'' []) (Some sloppy_reply)) =
     Some (Resolved \<lparr>assignments = JArr [], categories = JArr [], coverage = JNum 1\<rparr>) \<and>
   promise (on_message (callMCP_start 0 ''k3v9'' ''categorize_whatsapp'' []) (Some demo_reply)) =
     Some (Resolved \<lparr>assignments = JArr [JStr ''Jobs'', JStr ''''], categories = JArr [],
                     coverage = JNum 0.8\<rparr>) \<and>
   actions (on_message (callMCP_start 0 ''k3v9'' ''categorize_whatsapp'' []) (Some sloppy_reply)) =
     [AClearTimeout, AResolve \<lparr>assignments = JArr [], categories = JArr [], coverage = JNum 1\<rparr>,
      AClose]"
  using success_result_normalized
      [of sloppy_reply "callMCP_start 0 ''k3v9'' ''categorize_whatsapp'' []"
        "\<lparr>assignments = JArr [], categories = JArr [], coverage = JNum 1\<rparr>"]
    success_result_normalized
      [of demo_reply "callMCP_start 0 ''k3v9'' ''categorize_whatsapp'' []"
        "\<lparr>assignments = JArr [JStr ''Jobs'', JStr ''''], categories = JArr [],
                     coverage = JNum 0.8\<rparr>"]
  by (simp add: callMCP_start_def sloppy_reply_def demo_reply_def)

text \<open>
  C7. The row at position \<open>k\<close> carries the id of candidate \<open>k\<close>, the confidence 0.9, and
  as category the assignment at \<open>k\<close> when there is one and it is truthy (for a string:
  not empty), else \<^verbatim>\<open>"Other"\<close>. A matching successful reply without an \<^verbatim>\<open>assignments\<close>
  field resolves to a result all of whose rows have the category \<^verbatim>\<open>"Other"\<close>.
\<close>

theorem rows_category_fallback:
  "(\<forall>k<length list.
      filtered_id (rows list (JArr as) ! k) = r_id (list ! k) \<and>
      confidence (rows list (JArr as) ! k) = 0.9 \<and>
      category (rows list (JArr as) ! k) =
        (if k < length as \<and> truthy (as ! k) then as ! k else JStr ''Other'') \<and>
      (\<forall>t. k < length as \<and> as ! k = JStr t \<longrightarrow>
         category (rows list (JArr as) ! k) = (if t \<noteq> [] then JStr t else JStr ''Other''))) \<and>
   (promise s = None \<and> get_prop msg ''id'' = JStr (req_id s) \<and> truthy (get_prop msg ''ok'') \<and>
    get_prop msg ''assignments'' = JUndef \<longrightarrow>
      (\<exists>r. promise (on_message s (Some msg)) = Some (Resolved r) \<and>
           (\<forall>k<length list. category (rows list (assignments r) ! k) = JStr ''Other'')))"
proof (intro conjI allI impI)
  fix k assume k: "k < length list"
  then show "filtered_id (rows list (JArr as) ! k) = r_id (list ! k)"
    and "confidence (rows list (JArr as) ! k) = 0.9"
    by (simp_all add: nth_rows)
  show c: "category (rows list (JArr as) ! k) =
        (if k < length as \<and> truthy (as ! k) then as ! k else JStr ''Other'')"
    using k by (simp add: nth_rows js_or_def)
  fix t assume "k < length as \<and> as ! k = JStr t"
  with c show "category (rows list (JArr as) ! k) = (if t \<noteq> [] then JStr t else JStr ''Other'')"
    by simp
next
  assume a: "promise s = None \<and> get_prop msg ''id'' = JStr (req_id s) \<and>
    truthy (get_prop msg ''ok'') \<and> get_prop msg ''assignments'' = JUndef"
  then have "\<not> nullish msg" by (cases msg) auto
  with a have "\<exists>c d. promise (on_message s (Some msg)) =
      Some (Resolved \<lparr>assignments = JArr [], categories = c, coverage = d\<rparr>)"
    by (simp add: on_message_def Let_def resolve_def settle_def ws_close_def clearTimeout_def)
  then obtain c d where "promise (on_message s (Some msg)) =
      Some (Resolved \<lparr>assignments = JArr [], categories = c, coverage = d\<rparr>)" by blast
  moreover have "\<forall>k<length list.
      category (rows list (assignments \<lparr>assignments = JArr [], categories = c, coverage = d\<rparr>) ! k) =
        JStr ''Other''"
    by (simp add: nth_rows js_or_def)
  ultimately show "\<exists>r. promise (on_message s (Some msg)) = Some (Resolved r) \<and>
           (\<forall>k<length list. category (rows list (assignments r) ! k) = JStr ''Other'')"
    by blast
qed

theorem rows_category_fallback_witness:
  "rows [rec_a, rec_b, rec_c] (JArr [JStr ''Jobs'', JStr '''']) =
     [\<lparr>filtered_id = JNum 11, category = JStr ''Jobs'', confidence = 0.9\<rparr>,
      \<lparr>filtered_id = JNum 12, category = JStr ''Other'', confidence = 0.9\<rparr>,
      \<lparr>filtered_id = JNum 13, category = JStr ''Other'', confidence = 0.9\<rparr>] \<and>
   category (rows [rec_a, rec_b, rec_c] (JArr [JStr ''Jobs'', JStr '''']) ! 0) = JStr ''Jobs'' \<and>
   promise (on_message (callMCP_start 0 ''k3v9'' ''categorize_whatsapp'' []) (Some bare_reply)) =
     Some (Resolved \<lparr>assignments = JArr [], categories = JArr [], coverage = JNum 1\<rparr>) \<and>
   map category (rows [rec_a, rec_b, rec_c] (JArr [])) = [JStr ''Other'', JStr ''Other'', JStr ''Other'']"
  using rows_category_fallback
      [of "[rec_a, rec_b, rec_c]" "[JStr ''Jobs'', JStr '''']"
        "callMCP_start 0 ''k3v9'' ''categorize_whatsapp'' []" bare_reply]
  by (simp add: rows_def js_or_def rec_a_def rec_b_def rec_c_def bare_reply_def callMCP_start_def
      on_message_def Let_def resolve_def settle_def ws_close_def clearTimeout_def)

text \<open>
  C8. For every cap \<open>M\<close> and every list of \<open>N\<close> candidates the preparer emits exactly
  \<open>min N M\<close> items, their positions are \<open>0, ..., min N M - 1\<close> in order, and the item at
  position \<open>k\<close> is built from the record at index \<open>k\<close> of the input list.
\<close>

theorem shape_items_positions:
  "length (shape_items M list) = min (length list) M \<and>
   map item_i (shape_items M list) = [0..<min (length list) M] \<and>
   (\<forall>k<min (length list) M.
      shape_items M list ! k =
        \<lparr>item_i = k, item_text = raw_text (list ! k), item_url = url (list ! k),
         item_keywords = matched_keywords (list ! k)\<rparr>)"
  using length_shape_items positions_shape_items nth_shape_items by blast

theorem shape_items_positions_witness:
  "length (shape_items 2 [rec_a, rec_b, rec_c]) = 2 \<and>
   map item_i (shape_items 2 [rec_a, rec_b, rec_c]) = [0, 1] \<and>
   shape_items 2 [rec_a, rec_b, rec_c] ! 1 =
     \<lparr>item_i = 1, item_text = raw_text rec_b, item_url = url rec_b,
      item_keywords = matched_keywords rec_b\<rparr>"
  using shape_items_positions [of 2 "[rec_a, rec_b, rec_c]"]
  by (simp add: upt_rec)

text \<open>
  C9. When the request passes the checks, the select reports no error and the fetched
  list is empty, the handler answers \<^verbatim>\<open>{ok: true, upload_id, processed: 0, coverage: 1,
  categories: []}\<close> and its only call to the outside is the select: \<^verbatim>\<open>callMCP\<close> is not
  called, so no connection is opened, and nothing is inserted.
\<close>

theorem handler_empty_short_circuit:
  assumes "req_method req = ''POST''"
    and "truthy (get_prop (req_body req) ''upload_id'')"
    and "\<not> env_missing (SUPABASE_URL env)"
    and "\<not> env_missing (SUPABASE_SERVICE_ROLE_KEY env)"
    and "\<not> env_missing (MCP_WS_URL env)"
    and "sel_error (select_filtered w (get_prop (req_body req) ''upload_id'')) = None"
    and "fetched w req = []"
  shows "handler w env req =
           Some (\<lparr>res_status = 200,
                  res_body = Some (JObj [(''ok'', JBool True),
                                         (''upload_id'', get_prop (req_body req) ''upload_id''),
                                         (''processed'', JNum 0), (''coverage'', JNum 1),
                                         (''categories'', JArr [])])\<rparr>,
                 [DbSelect (get_prop (req_body req) ''upload_id'')])"
proof -
  have "\<not> nullish (req_body req)"
    using assms(2) by (cases "req_body req") auto
  then show ?thesis
    using assms by (simp add: handler_def fetched_def Let_def)
qed

theorem handler_empty_short_circuit_witness:
  "handler (demo_world [] [(10, WsOpen), (20, WsMessage (Some demo_reply))]) demo_env demo_post =
     Some (\<lparr>res_status = 200,
            res_body = Some (JObj [(''ok'', JBool True), (''upload_id'', JStr ''u1''),
                                   (''processed'', JNum 0), (''coverage'', JNum 1),
                                   (''categories'', JArr [])])\<rparr>,
           [DbSelect (JStr ''u1'')])"
  using handler_empty_short_circuit
      [of demo_post demo_env "demo_world [] [(10, WsOpen), (20, WsMessage (Some demo_reply))]"]
  by (simp add: demo_post_def demo_env_def demo_world_def env_missing_def fetched_def)

text \<open>
  C10. Whenever the handler answers 200, the \<^verbatim>\<open>coverage\<close> of the body is a number: the
  \<^verbatim>\<open>null\<close> branch of the final response is never taken, since \<^verbatim>\<open>callMCP\<close> only resolves
  with a numeric coverage.
\<close>

theorem handler_coverage_number:
  assumes "handler w env req = Some (resp, effs)"
    and "res_status resp = 200"
  shows "\<exists>b c. res_body resp = Some b \<and> get_prop b ''coverage'' = JNum c"
proof -
  from handler_success_cases [OF assms] show ?thesis
  proof (elim disjE exE conjE)
    assume "resp = \<lparr>res_status = 200,
                  res_body = Some (JObj [(''ok'', JBool True),
                                         (''upload_id'', get_prop (req_body req) ''upload_id''),
                                         (''processed'', JNum 0), (''coverage'', JNum 1),
                                         (''categories'', JArr [])])\<rparr>"
    then show ?thesis by simp
  next
    fix r ws_url
    assume p: "promise (callMCP (call_time w) (random_id w) (ws_ctor_error w ws_url) (ws_events w)
                       ''categorize_whatsapp'' (shape_items MAX_ITEMS (fetched w req))) =
              Some (Resolved r)"
      and resp: "resp = \<lparr>res_status = 200,
                    res_body = Some (JObj [(''ok'', JBool True),
                                           (''upload_id'', get_prop (req_body req) ''upload_id''),
                                           (''processed'',
                                            JNum (real (length (rows (fetched w req) (assignments r))))),
                                           (''coverage'',
                                            if is_number (coverage r) then coverage r else JNull),
                                           (''categories'',
                                            if isArray (categories r) then categories r else JArr [])])\<rparr>"
    from callMCP_normalized [OF p] obtain c where "coverage r = JNum c"
      by (auto simp: normalized_def is_number_iff)
    with resp show ?thesis by simp
  qed
qed

theorem handler_coverage_number_witness:
  "handler (demo_world [rec_a, rec_b] [(10, WsOpen), (20, WsMessage (Some bare_reply))])
       demo_env demo_post =
     Some (\<lparr>res_status = 200,
            res_body = Some (JObj [(''ok'', JBool True), (''upload_id'', JStr ''u1''),
                                   (''processed'', JNum 2), (''coverage'', JNum 1),
                                   (''categories'', JArr [])])\<rparr>,
           [DbSelect (JStr ''u1''),
            McpCall ''wss://mcp.example'' ''categorize_whatsapp'' (shape_items MAX_ITEMS [rec_a, rec_b]),
            DbInsert (rows [rec_a, rec_b] (JArr []))]) \<and>
   (\<exists>c. get_prop (JObj [(''ok'', JBool True), (''upload_id'', JStr ''u1''),
                        (''processed'', JNum 2), (''coverage'', JNum 1),
                        (''categories'', JArr [])]) ''coverage'' = JNum c)"
proof -
  have h: "handler (demo_world [rec_a, rec_b] [(10, WsOpen), (20, WsMessage (Some bare_reply))])
       demo_env demo_post =
     Some (\<lparr>res_status = 200,
            res_body = Some (JObj [(''ok'', JBool True), (''upload_id'', JStr ''u1''),
                                   (''processed'', JNum 2), (''coverage'', JNum 1),
                                   (''categories'', JArr [])])\<rparr>,
           [DbSelect (JStr ''u1''),
            McpCall ''wss://mcp.example'' ''categorize_whatsapp'' (shape_items MAX_ITEMS [rec_a, rec_b]),
            DbInsert (rows [rec_a, rec_b] (JArr []))])"
    by (simp add: handler_def demo_world_def demo_env_def demo_post_def env_missing_def Let_def
        callMCP_def run_def callMCP_start_def on_open_def on_message_def bare_reply_def
        resolve_def settle_def ws_close_def clearTimeout_def length_rows rows_Nil_iff)
  from handler_coverage_number [OF h] h show ?thesis by simp
qed

end
